theory Spec2Isabelle
  imports Main
begin

section \<open>Python primitives that shop.py relies on\<close>

text \<open>
  The program is a console application over two CSV files. Its strings are modelled as
  ASCII \<^typ>\<open>string\<close>s, its integers as \<^typ>\<open>int\<close> (Python integers are unbounded), and an
  exception that no handler of the program catches as a value of \<open>py_error\<close>.
\<close>

datatype py_error = EOFError | OverflowError

subsection \<open>\<open>str.strip\<close>, \<open>str.lower\<close>, \<open>int(text)\<close> and \<open>str(int)\<close>\<close>

definition isspace :: "char \<Rightarrow> bool" where
  "isspace c = (let n = (of_char c :: nat) in (9 \<le> n \<and> n \<le> 13) \<or> (28 \<le> n \<and> n \<le> 32))"

definition trim :: "(char \<Rightarrow> bool) \<Rightarrow> string \<Rightarrow> string" where
  "trim P s = rev (dropWhile P (rev (dropWhile P s)))"

definition strip :: "string \<Rightarrow> string" where
  "strip s = trim isspace s"

text \<open>
  \<open>int\<close> and \<open>float\<close> skip white space around the number themselves, but a smaller set
  than \<open>str.strip\<close> removes: the characters 0x1C to 0x1F are not in it.
\<close>

definition number_space :: "char \<Rightarrow> bool" where
  "number_space c = (let n = (of_char c :: nat) in (9 \<le> n \<and> n \<le> 13) \<or> n = 32)"

definition lower_char :: "char \<Rightarrow> char" where
  "lower_char c =
     (let n = (of_char c :: nat) in if 65 \<le> n \<and> n \<le> 90 then char_of (n + 32) else c)"

definition lower :: "string \<Rightarrow> string" where
  "lower s = map lower_char s"

definition isdigit :: "char \<Rightarrow> bool" where
  "isdigit c = (let n = (of_char c :: nat) in 48 \<le> n \<and> n \<le> 57)"

definition digit_value :: "char \<Rightarrow> int" where
  "digit_value c = int (of_char c) - 48"

text \<open>
  The digits of an integer literal: at least one digit, and single underscores only
  between two digits. The flag says whether the previous character was a digit.
\<close>

fun int_digits :: "bool \<Rightarrow> int \<Rightarrow> string \<Rightarrow> int option" where
  "int_digits after_digit acc [] = (if after_digit then Some acc else None)"
| "int_digits after_digit acc (c # cs) =
     (if isdigit c then int_digits True (acc * 10 + digit_value c) cs
      else if c = CHR ''_'' \<and> after_digit then int_digits False acc cs
      else None)"

definition int_literal :: "string \<Rightarrow> int option" where
  "int_literal s =
     (case s of
        [] \<Rightarrow> None
      | c # cs \<Rightarrow>
          if c = CHR ''-'' then map_option uminus (int_digits False 0 cs)
          else if c = CHR ''+'' then int_digits False 0 cs
          else int_digits False 0 (c # cs))"

text \<open>
  \<open>int(s)\<close> for a string: \<open>None\<close> stands for the \<open>ValueError\<close> it raises. The cap on
  the number of digits that newer interpreters put on \<open>int(s)\<close> and \<open>str(n)\<close>, a setting of
  the interpreter, is left out.
\<close>

definition py_int :: "string \<Rightarrow> int option" where
  "py_int s = int_literal (trim number_space s)"

definition digit_char :: "nat \<Rightarrow> char" where
  "digit_char d = char_of (48 + d)"

fun str_nat :: "nat \<Rightarrow> string" where
  "str_nat n = (if n < 10 then [digit_char n] else str_nat (n div 10) @ [digit_char (n mod 10)])"

declare str_nat.simps [simp del]

definition str_int :: "int \<Rightarrow> string" where
  "str_int i = (if i < 0 then CHR ''-'' # str_nat (nat (- i)) else str_nat (nat i))"

subsection \<open>Floats\<close>

text \<open>
  Prices are Python floats. Binary64 arithmetic is not modelled: the type of floats is
  the parameter \<open>'f\<close>, and the float operations of the runtime that the program calls are
  passed in as a record. \<open>float_of_str\<close> is \<open>float(s)\<close>, with \<open>None\<close> for its
  \<open>ValueError\<close>; \<open>str_of_float\<close> is the text \<open>csv.writer\<close> writes for a float;
  \<open>format_2f\<close> is the format \<open>:.2f\<close>.
\<close>

record 'f float_ops =
  float_of_str :: "string \<Rightarrow> 'f option"
  str_of_float :: "'f \<Rightarrow> string"
  float_of_int :: "int \<Rightarrow> 'f"
  float_mul :: "'f \<Rightarrow> 'f \<Rightarrow> 'f"
  format_2f :: "'f \<Rightarrow> string"

text \<open>
  What does not depend on the float type is when \<open>x * n\<close>, for a float \<open>x\<close> and an
  integer \<open>n\<close>, raises: the integer is converted to a float first, and the conversion
  raises \<open>OverflowError\<close> when \<open>n\<close>, rounded to 53 bits, does not fit the largest
  exponent, that is from halfway between the largest float and \<open>2 ^ 1024\<close> on.
\<close>

definition float_int_limit :: int where
  "float_int_limit = 2 ^ 1024 - 2 ^ 970"

definition float_times_int :: "'f float_ops \<Rightarrow> 'f \<Rightarrow> int \<Rightarrow> py_error + 'f" where
  "float_times_int fo x n =
     (if \<bar>n\<bar> < float_int_limit then Inr (float_mul fo x (float_of_int fo n))
      else Inl OverflowError)"

subsection \<open>Dictionaries, CSV files, the log\<close>

text \<open>
  A \<open>dict\<close> is an association list in insertion order: assigning to a key that is
  present replaces its value in place, assigning to a new key appends it.
\<close>

primrec dict_set :: "'k \<Rightarrow> 'v \<Rightarrow> ('k \<times> 'v) list \<Rightarrow> ('k \<times> 'v) list" where
  "dict_set k v [] = [(k, v)]"
| "dict_set k v (e # es) = (if fst e = k then (k, v) # es else e # dict_set k v es)"

text \<open>
  A CSV file is the list of the rows that \<open>csv.writer\<close> wrote into it, each a list of
  strings; \<open>None\<close> is a file that does not exist. Opening a file for appending creates it
  when it is missing.
\<close>

type_synonym csv_file = "string list list option"

text \<open>
  The program writes its files with \<open>newline=""\<close>, which writes every character as it
  is, and reads them in plain text mode, which turns every \<open>\r\n\<close> and every other
  \<open>\r\<close> into \<open>\n\<close> before \<open>csv.reader\<close> sees the text: a field is read back
  with its carriage returns translated.
\<close>

fun universal_newlines :: "string \<Rightarrow> string" where
  "universal_newlines [] = []"
| "universal_newlines [c] = (if c = CHR 0x0D then [CHR 0x0A] else [c])"
| "universal_newlines (c # d # ds) =
     (if c = CHR 0x0D \<and> d = CHR 0x0A then CHR 0x0A # universal_newlines ds
      else if c = CHR 0x0D then CHR 0x0A # universal_newlines (d # ds)
      else c # universal_newlines (d # ds))"

definition read_rows :: "string list list \<Rightarrow> string list list" where
  "read_rows rows = map (map universal_newlines) rows"

definition rows_of :: "csv_file \<Rightarrow> string list list" where
  "rows_of f = (case f of None \<Rightarrow> [] | Some rows \<Rightarrow> rows)"

datatype level = INFO | WARNING | ERROR

section \<open>The data model\<close>

record 'f product =
  product_id :: string
  name :: string
  price :: 'f
  quantity :: int

text \<open>A line item is the list \<open>[product_id, name, quantity, total_price]\<close>.\<close>

type_synonym 'f line_item = "string \<times> string \<times> int \<times> 'f"

record 'f sale =
  sale_id :: string
  items :: "'f line_item list"

text \<open>
  The state of the running program: the inventory dictionary, the two files, the lines
  logged to shop.log (without their time stamps) and the lines passed to \<open>print\<close>.
\<close>

record 'f shop =
  products :: "(string \<times> 'f product) list"
  inventory_file :: csv_file
  sales_file :: csv_file
  shop_log :: "(level \<times> string) list"
  printed :: "string list"

section \<open>Inventory\<close>

datatype load_exc = BadFloat string | BadInt string | TooManyValues

text \<open>
  The text of the exception, as the log shows it. It quotes the field with \<open>repr\<close>,
  for \<open>int\<close> cut after 200 characters.
\<close>

definition hex_digit :: "nat \<Rightarrow> char" where
  "hex_digit n = ''0123456789abcdef'' ! n"

definition repr_char :: "char \<Rightarrow> char \<Rightarrow> string" where
  "repr_char q c =
     (let n = (of_char c :: nat)
      in if c = q \<or> c = CHR 0x5C then [CHR 0x5C, c]
         else if n = 9 then [CHR 0x5C, CHR ''t'']
         else if n = 10 then [CHR 0x5C, CHR ''n'']
         else if n = 13 then [CHR 0x5C, CHR ''r'']
         else if n < 32 \<or> n = 127 then [CHR 0x5C, CHR ''x'', hex_digit (n div 16), hex_digit (n mod 16)]
         else [c])"

definition py_repr :: "string \<Rightarrow> string" where
  "py_repr s =
     (let q = (if CHR 0x27 \<in> set s \<and> CHR 0x22 \<notin> set s then CHR 0x22 else CHR 0x27)
      in q # concat (map (repr_char q) s) @ [q])"

definition exc_text :: "load_exc \<Rightarrow> string" where
  "exc_text e =
     (case e of
        BadFloat s \<Rightarrow> ''could not convert string to float: '' @ py_repr s
      | BadInt s \<Rightarrow> ''invalid literal for int() with base 10: '' @ take 200 (py_repr s)
      | TooManyValues \<Rightarrow> ''too many values to unpack (expected 4)'')"

text \<open>
  The loop of \<open>load_inventory\<close> over the rows after the header. An exception leaves the
  loop with the dictionary built so far.
\<close>

fun load_rows ::
  "'f float_ops \<Rightarrow> (string \<times> 'f product) list \<Rightarrow> string list list
     \<Rightarrow> (string \<times> 'f product) list \<times> load_exc option" where
  "load_rows fo ps [] = (ps, None)"
| "load_rows fo ps (row # rows) =
     (if length row < 4 then load_rows fo ps rows
      else case row of
        [pid, nm, pr, qty] \<Rightarrow>
          (case float_of_str fo pr of
             None \<Rightarrow> (ps, Some (BadFloat pr))
           | Some x \<Rightarrow>
               (case py_int qty of
                  None \<Rightarrow> (ps, Some (BadInt qty))
                | Some n \<Rightarrow>
                    load_rows fo
                      (dict_set pid \<lparr>product_id = pid, name = nm, price = x, quantity = n\<rparr> ps)
                      rows))
      | _ \<Rightarrow> (ps, Some TooManyValues))"

definition load_inventory ::
  "'f float_ops \<Rightarrow> csv_file \<Rightarrow> (string \<times> 'f product) list \<times> (level \<times> string) list" where
  "load_inventory fo file =
     (case file of
        None \<Rightarrow> ([], [(WARNING, ''Inventory file not found. Creating a new one.'')])
      | Some rows \<Rightarrow>
          (case load_rows fo [] (drop 1 (read_rows rows)) of
             (ps, None) \<Rightarrow> (ps, [])
           | (ps, Some e) \<Rightarrow> (ps, [(ERROR, ''Error loading inventory: '' @ exc_text e)])))"

definition inventory_header :: "string list" where
  "inventory_header = [''product_id'', ''product_name'', ''price'', ''quantity'']"

definition product_row :: "'f float_ops \<Rightarrow> 'f product \<Rightarrow> string list" where
  "product_row fo p = [product_id p, name p, str_of_float fo (price p), str_int (quantity p)]"

definition inventory_rows :: "'f float_ops \<Rightarrow> (string \<times> 'f product) list \<Rightarrow> string list list" where
  "inventory_rows fo ps = inventory_header # map (\<lambda>e. product_row fo (snd e)) ps"

definition save_inventory :: "'f float_ops \<Rightarrow> 'f shop \<Rightarrow> 'f shop" where
  "save_inventory fo s = s\<lparr>inventory_file := Some (inventory_rows fo (products s))\<rparr>"

definition add_product ::
  "'f float_ops \<Rightarrow> string \<Rightarrow> string \<Rightarrow> 'f \<Rightarrow> int \<Rightarrow> 'f shop \<Rightarrow> 'f shop" where
  "add_product fo pid nm pr qty s =
     (if map_of (products s) pid \<noteq> None then
        s\<lparr>shop_log := shop_log s @ [(ERROR, ''Product ID already exists'')],
          printed := printed s @ [''Product ID already exists!'']\<rparr>
      else
        let s1 = s\<lparr>products :=
                   dict_set pid \<lparr>product_id = pid, name = nm, price = pr, quantity = qty\<rparr>
                     (products s)\<rparr>;
            s2 = save_inventory fo s1
        in s2\<lparr>shop_log := shop_log s2 @ [(INFO, ''Added product '' @ nm @ '' with ID '' @ pid @ ''.'')],
              printed := printed s2 @ [''Product added successfully!'']\<rparr>)"

section \<open>Sales\<close>

definition add_item ::
  "'f float_ops \<Rightarrow> 'f sale \<Rightarrow> 'f product \<Rightarrow> int \<Rightarrow> py_error + ('f sale \<times> 'f)" where
  "add_item fo sale product qty =
     (case float_times_int fo (price product) qty of
        Inl e \<Rightarrow> Inl e
      | Inr total_price \<Rightarrow>
          Inr (sale\<lparr>items := items sale @ [(product_id product, name product, qty, total_price)]\<rparr>,
               total_price))"

definition sales_header :: "string list" where
  "sales_header = [''Sale ID'', ''Product ID'', ''Product Name'', ''Quantity Sold'', ''Total Price'']"

definition ensure_sales_file :: "'f shop \<Rightarrow> 'f shop" where
  "ensure_sales_file s =
     (case sales_file s of None \<Rightarrow> s\<lparr>sales_file := Some [sales_header]\<rparr> | Some rows \<Rightarrow> s)"

definition get_existing_sales :: "csv_file \<Rightarrow> string set" where
  "get_existing_sales file =
     (case file of
        None \<Rightarrow> {}
      | Some rows \<Rightarrow> set (map hd (filter (\<lambda>row. row \<noteq> []) (drop 1 (read_rows rows)))))"

definition sale_row :: "'f float_ops \<Rightarrow> string \<Rightarrow> 'f line_item \<Rightarrow> string list" where
  "sale_row fo sid item =
     (case item of (pid, nm, qty, total_price) \<Rightarrow>
        [sid, pid, nm, str_int qty, str_of_float fo total_price])"

definition save_sale :: "'f float_ops \<Rightarrow> 'f sale \<Rightarrow> 'f shop \<Rightarrow> 'f shop" where
  "save_sale fo sale s =
     (if sale_id sale \<in> get_existing_sales (sales_file s) then
        s\<lparr>shop_log := shop_log s @
             [(ERROR, ''Sale ID '' @ sale_id sale @ '' already exists. Choose a different ID.'')],
          printed := printed s @ [''Sale ID already exists. Choose a different ID.'']\<rparr>
      else
        s\<lparr>sales_file := Some (rows_of (sales_file s) @ map (sale_row fo (sale_id sale)) (items sale)),
          shop_log := shop_log s @ [(INFO, ''Sale '' @ sale_id sale @ '' recorded successfully.'')]\<rparr>)"

section \<open>The controller\<close>

text \<open>
  The operator's input is the list of the lines that \<open>input()\<close> will return, in order;
  \<open>input()\<close> on an exhausted input raises \<open>EOFError\<close>, which nothing catches. Every
  function returns the lines it has not read.
\<close>

definition ShopSystem_add_product ::
  "'f float_ops \<Rightarrow> string list \<Rightarrow> 'f shop \<Rightarrow> py_error + ('f shop \<times> string list)" where
  "ShopSystem_add_product fo inputs s =
     (case inputs of
        l1 # l2 # l3 # rest3 \<Rightarrow>
          (case float_of_str fo (strip l3) of
             None \<Rightarrow>
               Inr (s\<lparr>printed := printed s @
                     [''Invalid input! Price must be a number, and quantity must be an integer.'']\<rparr>,
                    rest3)
           | Some pr \<Rightarrow>
               (case rest3 of
                  [] \<Rightarrow> Inl EOFError
                | l4 # rest \<Rightarrow>
                    (case py_int (strip l4) of
                       None \<Rightarrow>
                         Inr (s\<lparr>printed := printed s @
                               [''Invalid input! Price must be a number, and quantity must be an integer.'']\<rparr>,
                              rest)
                     | Some qty \<Rightarrow> Inr (add_product fo (strip l1) (strip l2) pr qty s, rest))))
      | _ \<Rightarrow> Inl EOFError)"

text \<open>
  The stock check and what follows it in the body of the loop of \<open>process_sale\<close>, for
  the product found under the key \<open>pid\<close> and a quantity that \<open>int\<close> has parsed. The
  product is the object stored in the dictionary, so decrementing its quantity changes
  the dictionary's entry.
\<close>

definition sell_quantity ::
  "'f float_ops \<Rightarrow> string \<Rightarrow> 'f product \<Rightarrow> int
     \<Rightarrow> (string \<times> 'f product) list \<times> 'f sale \<times> string list
     \<Rightarrow> py_error + ((string \<times> 'f product) list \<times> 'f sale \<times> string list)" where
  "sell_quantity fo pid product qty st =
     (case st of (ps, sale, out) \<Rightarrow>
        if qty > quantity product then Inr (ps, sale, out @ [''Not enough stock available.''])
        else
          (case add_item fo sale product qty of
             Inl e \<Rightarrow> Inl e
           | Inr (sale', total_price) \<Rightarrow>
               Inr (dict_set pid (product\<lparr>quantity := quantity product - qty\<rparr>) ps,
                    sale',
                    out @ [''Added '' @ str_int qty @ '' of '' @ name product @
                           '' to sale. Total: $'' @ format_2f fo total_price])))"

fun collect_items ::
  "'f float_ops \<Rightarrow> (string \<times> 'f product) list \<Rightarrow> 'f sale \<Rightarrow> string list \<Rightarrow> string list
     \<Rightarrow> py_error + ((string \<times> 'f product) list \<times> 'f sale \<times> string list \<times> string list)" where
  "collect_items fo ps sale out [] = Inl EOFError"
| "collect_items fo ps sale out (l # ls) =
     (if lower (strip l) = ''done'' then Inr (ps, sale, out, ls)
      else
        (case map_of ps (strip l) of
           None \<Rightarrow> collect_items fo ps sale (out @ [''Invalid Product ID. Try again.'']) ls
         | Some product \<Rightarrow>
             (case ls of
                [] \<Rightarrow> Inl EOFError
              | ql # ls' \<Rightarrow>
                  (case py_int (strip ql) of
                     None \<Rightarrow>
                       collect_items fo ps sale
                         (out @ [''Invalid quantity! Enter a valid integer.'']) ls'
                   | Some qty \<Rightarrow>
                       (case sell_quantity fo (strip l) product qty (ps, sale, out) of
                          Inl e \<Rightarrow> Inl e
                        | Inr (ps', sale', out') \<Rightarrow> collect_items fo ps' sale' out' ls')))))"

definition process_sale ::
  "'f float_ops \<Rightarrow> string list \<Rightarrow> 'f shop \<Rightarrow> py_error + ('f shop \<times> string list)" where
  "process_sale fo inputs s =
     (case inputs of
        [] \<Rightarrow> Inl EOFError
      | l # ls \<Rightarrow>
          (case collect_items fo (products s) \<lparr>sale_id = strip l, items = []\<rparr> (printed s) ls of
             Inl e \<Rightarrow> Inl e
           | Inr (ps, sale, out, rest) \<Rightarrow>
               let s1 = save_inventory fo (s\<lparr>products := ps, printed := out\<rparr>);
                   s2 = save_sale fo sale s1
               in Inr (s2\<lparr>printed := printed s2 @
                          [''Sale '' @ strip l @ '' recorded successfully.'']\<rparr>,
                       rest)))"

text \<open>
  A stand-in for the float operations, used to run the model on concrete inputs: prices
  are whole numbers, written as an integer literal with an optional \<open>.0\<close> after it; every
  other text is refused.
\<close>

definition whole_of_str :: "string \<Rightarrow> int option" where
  "whole_of_str s =
     (let t = trim number_space s; n = length t
      in if 2 \<le> n \<and> drop (n - 2) t = ''.0'' then int_literal (take (n - 2) t)
         else int_literal t)"

definition whole_ops :: "int float_ops" where
  "whole_ops =
     \<lparr>float_of_str = whole_of_str,
      str_of_float = (\<lambda>x. str_int x @ ''.0''),
      float_of_int = (\<lambda>n. n),
      float_mul = (\<lambda>x y. x * y),
      format_2f = (\<lambda>x. str_int x @ ''.00'')\<rparr>"

text \<open>
  \<open>ShopSystem.__init__\<close>: the inventory is loaded from its file, and the sales file is
  created with its header when it is missing.
\<close>

definition ShopSystem_init :: "'f float_ops \<Rightarrow> csv_file \<Rightarrow> csv_file \<Rightarrow> 'f shop" where
  "ShopSystem_init fo ifile sfile =
     (case load_inventory fo ifile of
        (ps, lg) \<Rightarrow>
          ensure_sales_file
            \<lparr>products = ps, inventory_file = ifile, sales_file = sfile, shop_log = lg, printed = []\<rparr>)"

section \<open>Notions used to state the properties\<close>

text \<open>Every quantity on hand in an inventory is non-negative.\<close>

definition stock_nonneg :: "(string \<times> 'f product) list \<Rightarrow> bool" where
  "stock_nonneg ps = (\<forall>e \<in> set ps. 0 \<le> quantity (snd e))"

text \<open>
  The shape of every dictionary the program builds: a product is stored under its own
  identifier.
\<close>

definition keyed_by_id :: "(string \<times> 'f product) list \<Rightarrow> bool" where
  "keyed_by_id ps = (distinct (map fst ps) \<and> (\<forall>e \<in> set ps. product_id (snd e) = fst e))"






text \<open>
  A row of exactly four fields whose price and quantity parse gives a product; storing
  products one after the other gives the dictionary that a load builds from them.
\<close>

definition parse_row :: "'f float_ops \<Rightarrow> string list \<Rightarrow> 'f product option" where
  "parse_row fo row =
     (case row of
        [pid, nm, pr, qty] \<Rightarrow>
          (case float_of_str fo pr of
             None \<Rightarrow> None
           | Some x \<Rightarrow>
               (case py_int qty of
                  None \<Rightarrow> None
                | Some n \<Rightarrow> Some \<lparr>product_id = pid, name = nm, price = x, quantity = n\<rparr>))
      | _ \<Rightarrow> None)"

definition store_all :: "(string \<times> 'f product) list \<Rightarrow> 'f product list \<Rightarrow> (string \<times> 'f product) list" where
  "store_all ps new = foldl (\<lambda>acc p. dict_set (product_id p) p acc) ps new"


text \<open>
  A row whose price or quantity does not parse, and the inventory that a load would
  yield if only such a row ended it: the products of the rows before the first one.
\<close>

definition malformed_numeric :: "'f float_ops \<Rightarrow> string list \<Rightarrow> bool" where
  "malformed_numeric fo row =
     (4 \<le> length row \<and> (float_of_str fo (row ! 2) = None \<or> py_int (row ! 3) = None))"


text \<open>The rows that do end a load: the ones above, and every row of more than four fields.\<close>

definition aborts_load :: "'f float_ops \<Rightarrow> string list \<Rightarrow> bool" where
  "aborts_load fo row = (4 < length row \<or> malformed_numeric fo row)"

subsection \<open>Concrete inputs\<close>

definition pen :: "int product" where
  "pen = \<lparr>product_id = ''p1'', name = ''pen'', price = 2, quantity = 5\<rparr>"

definition bulk :: "int product" where
  "bulk = \<lparr>product_id = ''p1'', name = ''pen'', price = 2, quantity = 2 ^ 1024\<rparr>"

definition huge_return :: string where
  "huge_return = ''-179769313486231590772930519078902473361797697894230657273430081157732675805500963132708477322407536021120113879871393357658789768814416622492847430639474124377767893424865485276302219601246094119453082952085005768838150682342462881473913110540827237163350510684586298239947245938479716304835356329624224137216''"

definition demo_shop :: "int shop" where
  "demo_shop =
     \<lparr>products = [(''p1'', pen)],
      inventory_file = Some [inventory_header, [''p1'', ''pen'', ''2.0'', ''5'']],
      sales_file = Some [sales_header, [''S1'', ''p1'', ''pen'', ''1'', ''2.0'']],
      shop_log = [],
      printed = []\<rparr>"

definition resold_shop :: "int shop" where
  "resold_shop =
     \<lparr>products = [(''p1'', pen\<lparr>quantity := 3\<rparr>)],
      inventory_file = Some [inventory_header, [''p1'', ''pen'', ''2.0'', ''3'']],
      sales_file = Some [sales_header, [''S1'', ''p1'', ''pen'', ''1'', ''2.0'']],
      shop_log = [(ERROR, ''Sale ID S1 already exists. Choose a different ID.'')],
      printed = [''Added 2 of pen to sale. Total: $4.00'',
                 ''Sale ID already exists. Choose a different ID.'',
                 ''Sale S1 recorded successfully.'']\<rparr>"

definition demo_sale :: "string \<Rightarrow> int sale" where
  "demo_sale sid = \<lparr>sale_id = sid, items = [(''p1'', ''pen'', 2, 4), (''p1'', ''pen'', 1, 2)]\<rparr>"




section \<open>Lemmas\<close>

subsection \<open>Dictionaries and the ledger's identifiers\<close>

lemma map_of_dict_set: "map_of (dict_set k v ps) = (map_of ps)(k \<mapsto> v)"
  by (induction ps) (auto simp: fun_eq_iff)

lemma dict_set_keys:
  "map fst (dict_set k v ps) = (if k \<in> set (map fst ps) then map fst ps else map fst ps @ [k])"
  by (induction ps) auto


lemma set_dict_set_subset: "set (dict_set k v ps) \<subseteq> insert (k, v) (set ps)"
  by (induction ps) auto

lemma dict_set_keys_present: "map_of ps k = Some v' \<Longrightarrow> map fst (dict_set k v ps) = map fst ps"
  by (induction ps) (auto split: if_splits)

lemma get_existing_sales_rows: "get_existing_sales f = get_existing_sales (Some (rows_of f))"
  by (cases f) (simp_all add: get_existing_sales_def rows_of_def read_rows_def)

subsection \<open>\<open>int(str(n))\<close> is \<open>n\<close>\<close>














subsection \<open>Reading carriage returns\<close>





subsection \<open>Loading rows\<close>

lemma length4: "length row = 4 \<Longrightarrow> \<exists>a b c d. row = [a, b, c, d]"
  by (auto simp: eval_nat_numeral length_Suc_conv)

lemma fst_load_inventory:
  "fst (load_inventory fo (Some rows)) = fst (load_rows fo [] (drop 1 (read_rows rows)))"
  by (simp add: load_inventory_def split: prod.splits option.splits)

lemma parse_row_short: "length row \<noteq> 4 \<Longrightarrow> parse_row fo row = None"
  by (auto simp: parse_row_def split: list.splits)

lemma load_rows_prefix:
  "fst (load_rows fo acc rows)
     = store_all acc (List.map_filter (parse_row fo) (takeWhile (\<lambda>row. \<not> aborts_load fo row) rows))"
proof (induction rows arbitrary: acc)
  case Nil
  show ?case by (simp add: store_all_def map_filter_simps)
next
  case (Cons row rows)
  consider (short) "length row < 4" | (four) "length row = 4" | (long) "4 < length row"
    by linarith
  then show ?case
  proof cases
    case short
    then have "\<not> aborts_load fo row" "parse_row fo row = None"
      by (simp_all add: aborts_load_def malformed_numeric_def parse_row_short)
    with short Cons.IH [of acc] show ?thesis
      by (simp add: map_filter_simps)
  next
    case four
    then obtain a b c d where row: "row = [a, b, c, d]"
      using length4 by blast
    show ?thesis
    proof (cases "float_of_str fo c")
      case None
      then show ?thesis
        by (simp add: row aborts_load_def malformed_numeric_def store_all_def map_filter_simps)
    next
      case (Some x)
      show ?thesis
      proof (cases "py_int d")
        case None
        with Some show ?thesis
          by (simp add: row aborts_load_def malformed_numeric_def store_all_def map_filter_simps)
      next
        case (Some n)
        with \<open>float_of_str fo c = Some x\<close>
          Cons.IH [of "dict_set a \<lparr>product_id = a, name = b, price = x, quantity = n\<rparr> acc"]
        show ?thesis
          by (simp add: row aborts_load_def malformed_numeric_def store_all_def map_filter_simps
              parse_row_def)
      qed
    qed
  next
    case long
    then have "aborts_load fo row"
      by (simp add: aborts_load_def)
    moreover from long have "load_rows fo acc (row # rows) = (acc, Some TooManyValues)"
      by (auto split: list.splits)
    ultimately show ?thesis
      by (simp add: store_all_def map_filter_simps)
  qed
qed


subsection \<open>Loading what was saved\<close>








subsection \<open>The loop of \<open>process_sale\<close>\<close>

text \<open>
  A property of the inventory and the sale that every accepted or rejected item keeps
  holds when the loop ends.
\<close>

lemma collect_items_invariant:
  "\<forall>pid product qty ps sale out ps' sale' out'.
      P ps sale \<longrightarrow> map_of ps pid = Some product
      \<longrightarrow> sell_quantity fo pid product qty (ps, sale, out) = Inr (ps', sale', out')
      \<longrightarrow> P ps' sale'
   \<Longrightarrow> collect_items fo ps sale out ls = Inr (ps', sale', out', rest) \<Longrightarrow> P ps sale
   \<Longrightarrow> P ps' sale'"
proof (induction fo ps sale out ls rule: collect_items.induct)
  case (1 fo ps sale out)
  then show ?case by simp
next
  case (2 fo ps sale out l ls)
  show ?case
  proof (cases "lower (strip l) = ''done''")
    case True
    with "2.prems" show ?thesis by simp
  next
    case nd: False
    show ?thesis
    proof (cases "map_of ps (strip l)")
      case None
      with nd "2.prems" "2.IH"(1) show ?thesis by simp
    next
      case (Some product)
      show ?thesis
      proof (cases ls)
        case Nil
        with nd Some "2.prems" show ?thesis by simp
      next
        case (Cons ql ls')
        show ?thesis
        proof (cases "py_int (strip ql)")
          case None
          with nd Some Cons "2.prems" "2.IH"(2) show ?thesis by simp
        next
          case sq: (Some qty)
          show ?thesis
          proof (cases "sell_quantity fo (strip l) product qty (ps, sale, out)")
            case (Inl e)
            with nd Some Cons sq "2.prems" show ?thesis by simp
          next
            case (Inr r)
            obtain ps1 sale1 out1 where r: "r = (ps1, sale1, out1)" by (cases r)
            have "P ps1 sale1"
              using "2.prems"(1,3) Some Inr r by blast
            moreover have "collect_items fo ps1 sale1 out1 ls' = Inr (ps', sale', out', rest)"
              using nd Some Cons sq Inr r "2.prems"(2) by simp
            ultimately show ?thesis
              using "2.IH"(3) [OF nd Some Cons sq Inr r [symmetric] _ "2.prems"(1)] by simp
          qed
        qed
      qed
    qed
  qed
qed

lemma stock_nonneg_dict_set:
  "stock_nonneg ps \<Longrightarrow> 0 \<le> quantity v \<Longrightarrow> stock_nonneg (dict_set k v ps)"
  using set_dict_set_subset [of k v ps] by (auto simp: stock_nonneg_def)

lemma sell_quantity_nonneg:
  assumes "sell_quantity fo pid product qty (ps, sale, out) = Inr (ps', sale', out')"
    and "stock_nonneg ps"
  shows "stock_nonneg ps'"
proof (cases "qty > quantity product")
  case True
  with assms show ?thesis by (simp add: sell_quantity_def)
next
  case False
  with assms(1) have "ps' = dict_set pid (product\<lparr>quantity := quantity product - qty\<rparr>) ps"
    by (auto simp: sell_quantity_def split: sum.splits)
  with False assms(2) show ?thesis
    by (simp add: stock_nonneg_dict_set)
qed

lemma sell_quantity_sale_id:
  "sell_quantity fo pid product qty (ps, sale, out) = Inr (ps', sale', out') \<Longrightarrow> sale_id sale' = sale_id sale"
  by (auto simp: sell_quantity_def add_item_def split: if_splits sum.splits)

lemma collect_items_nonneg:
  assumes "collect_items fo ps sale out ls = Inr (ps', sale', out', rest)" and "stock_nonneg ps"
  shows "stock_nonneg ps'"
proof -
  have "\<forall>pid product qty ps sale out ps' sale' out'.
      stock_nonneg ps \<longrightarrow> map_of ps pid = Some product
      \<longrightarrow> sell_quantity fo pid product qty (ps, sale, out) = Inr (ps', sale', out')
      \<longrightarrow> stock_nonneg ps'"
    using sell_quantity_nonneg by fastforce
  from collect_items_invariant [where P = "\<lambda>ps sale. stock_nonneg ps", OF this assms]
  show ?thesis .
qed

lemma collect_items_sale_id:
  assumes "collect_items fo ps sale out ls = Inr (ps', sale', out', rest)"
  shows "sale_id sale' = sale_id sale"
proof -
  have "\<forall>pid product qty ps sale0 out ps' sale' out'.
      sale_id sale0 = sale_id sale \<longrightarrow> map_of ps pid = Some product
      \<longrightarrow> sell_quantity fo pid product qty (ps, sale0, out) = Inr (ps', sale', out')
      \<longrightarrow> sale_id sale' = sale_id sale"
    using sell_quantity_sale_id by fastforce
  from collect_items_invariant [where P = "\<lambda>ps s. sale_id s = sale_id sale", OF this assms]
  show ?thesis by simp
qed

subsection \<open>Products are stored under their own identifier\<close>

text \<open>
  Loading, adding a product and selling all keep the dictionary keyed by the products'
  identifiers, so the identifiers of the products of an inventory are pairwise different.
\<close>

lemma keyed_by_id_dict_set:
  assumes "keyed_by_id ps" and "product_id v = k"
  shows "keyed_by_id (dict_set k v ps)"
proof -
  have "distinct (map fst (dict_set k v ps))"
    using assms(1) by (simp add: dict_set_keys keyed_by_id_def)
  moreover have "\<forall>e \<in> set (dict_set k v ps). product_id (snd e) = fst e"
    using assms set_dict_set_subset [of k v ps] by (auto simp: keyed_by_id_def)
  ultimately show ?thesis
    by (simp add: keyed_by_id_def)
qed

lemma keyed_by_id_store_all:
  "keyed_by_id ps \<Longrightarrow> keyed_by_id (store_all ps new)"
  unfolding store_all_def
  by (induction new arbitrary: ps) (simp_all add: keyed_by_id_dict_set)

lemma keyed_by_id_load_inventory: "keyed_by_id (fst (load_inventory fo file))"
proof (cases "file")
  case None
  then show ?thesis by (simp add: load_inventory_def keyed_by_id_def)
next
  case (Some rows)
  note fst_load_inventory [of fo rows]
  moreover have "keyed_by_id ([] :: (string \<times> 'a product) list)"
    by (simp add: keyed_by_id_def)
  ultimately show ?thesis
    using Some by (simp add: load_rows_prefix keyed_by_id_store_all)
qed

lemma keyed_by_id_add_product:
  "keyed_by_id (products s) \<Longrightarrow> keyed_by_id (products (add_product fo pid nm pr qty s))"
  by (simp add: add_product_def Let_def save_inventory_def keyed_by_id_dict_set)

lemma keyed_by_id_sell_quantity:
  assumes "keyed_by_id ps" and "map_of ps pid = Some product"
    and "sell_quantity fo pid product qty (ps, sale, out) = Inr (ps', sale', out')"
  shows "keyed_by_id ps'"
proof -
  have "(pid, product) \<in> set ps"
    using assms(2) by (rule map_of_SomeD)
  with assms(1) have "product_id product = pid"
    by (auto simp: keyed_by_id_def)
  with assms(1,3) show ?thesis
    by (auto simp: sell_quantity_def keyed_by_id_dict_set split: if_splits sum.splits)
qed

lemma keyed_by_id_collect_items:
  assumes "collect_items fo ps sale out ls = Inr (ps', sale', out', rest)" and "keyed_by_id ps"
  shows "keyed_by_id ps'"
proof -
  have "\<forall>pid product qty ps sale out ps' sale' out'.
      keyed_by_id ps \<longrightarrow> map_of ps pid = Some product
      \<longrightarrow> sell_quantity fo pid product qty (ps, sale, out) = Inr (ps', sale', out')
      \<longrightarrow> keyed_by_id ps'"
    using keyed_by_id_sell_quantity by fastforce
  from collect_items_invariant [where P = "\<lambda>ps sale. keyed_by_id ps", OF this assms]
  show ?thesis .
qed

lemma keyed_by_id_distinct_ids:
  assumes "keyed_by_id ps"
  shows "distinct (map (\<lambda>e. product_id (snd e)) ps)"
proof -
  have "map (\<lambda>e. product_id (snd e)) ps = map fst ps"
    using assms by (intro map_cong) (simp_all add: keyed_by_id_def)
  then show ?thesis
    using assms by (simp only: keyed_by_id_def)
qed

section \<open>The properties\<close>

subsection \<open>C1: a rejected sale keeps the stock it took\<close>

text \<open>
  C1. When \<open>process_sale\<close> finishes for a sale identifier that the ledger already
  holds, the inventory in memory is the one the item loop left, with its decrements, the
  inventory file has been rewritten from it, and the ledger is unchanged.
\<close>

theorem duplicate_sale_keeps_decrements:
  assumes "process_sale fo (l # ls) s = Inr (s', rest)"
    and "strip l \<in> get_existing_sales (sales_file s)"
  shows "\<exists>ps sale out.
           collect_items fo (products s) \<lparr>sale_id = strip l, items = []\<rparr> (printed s) ls
             = Inr (ps, sale, out, rest)
         \<and> products s' = ps
         \<and> inventory_file s' = Some (inventory_rows fo ps)
         \<and> sales_file s' = sales_file s"
proof (cases "collect_items fo (products s) \<lparr>sale_id = strip l, items = []\<rparr> (printed s) ls")
  case (Inl e)
  with assms(1) show ?thesis by (simp add: process_sale_def)
next
  case (Inr r)
  obtain ps sale out rest' where r: "r = (ps, sale, out, rest')"
    by (cases r) auto
  have sid: "sale_id sale = strip l"
    using collect_items_sale_id Inr r by fastforce
  have dup: "sale_id sale \<in> get_existing_sales (sales_file (save_inventory fo (s\<lparr>products := ps, printed := out\<rparr>)))"
    using assms(2) sid by (simp add: save_inventory_def)
  from assms(1) Inr r dup show ?thesis
    by (auto simp: process_sale_def Let_def save_sale_def save_inventory_def)
qed

theorem duplicate_sale_keeps_decrements_witness:
  "process_sale whole_ops [''S1'', ''p1'', ''2'', ''done''] demo_shop = Inr (resold_shop, [])
   \<and> strip ''S1'' \<in> get_existing_sales (sales_file demo_shop)
   \<and> (\<exists>ps sale out.
         collect_items whole_ops (products demo_shop) \<lparr>sale_id = strip ''S1'', items = []\<rparr>
           (printed demo_shop) [''p1'', ''2'', ''done'']
           = Inr (ps, sale, out, [])
       \<and> products resold_shop = ps
       \<and> inventory_file resold_shop = Some (inventory_rows whole_ops ps)
       \<and> sales_file resold_shop = sales_file demo_shop)"
proof -
  have run: "process_sale whole_ops [''S1'', ''p1'', ''2'', ''done''] demo_shop = Inr (resold_shop, [])"
    by code_simp
  have dup: "strip ''S1'' \<in> get_existing_sales (sales_file demo_shop)"
    by code_simp
  show ?thesis
    using run dup duplicate_sale_keeps_decrements [OF run dup] by blast
qed

subsection \<open>C2: quantities on hand stay non-negative\<close>

text \<open>
  \<open>add_product\<close> stores the quantity it is given without any check, so a negative
  quantity entered by the operator on a first run breaks the invariant.
\<close>

theorem add_product_negative_counterexample:
  "stock_nonneg (products (ShopSystem_init whole_ops None None))
   \<and> ShopSystem_add_product whole_ops [''p1'', ''pen'', ''2.0'', ''-5''] (ShopSystem_init whole_ops None None)
       = Inr (add_product whole_ops ''p1'' ''pen'' 2 (- 5) (ShopSystem_init whole_ops None None), [])
   \<and> \<not> stock_nonneg (products (add_product whole_ops ''p1'' ''pen'' 2 (- 5) (ShopSystem_init whole_ops None None)))"
  by code_simp

text \<open>
  C2, amended. \<open>add_product\<close> keeps every quantity non-negative when the quantity it is
  given is non-negative; the stock check of a sale item keeps every quantity non-negative,
  and so does a whole run of \<open>process_sale\<close>.
\<close>

theorem sale_item_nonneg_add_product_unchecked:
  "(stock_nonneg (products s) \<and> 0 \<le> qty \<longrightarrow>
      stock_nonneg (products (add_product fo pid nm pr qty s)))
   \<and> (stock_nonneg ps \<and> sell_quantity fo pid product n (ps, sale, out) = Inr (ps', sale', out') \<longrightarrow>
      stock_nonneg ps')
   \<and> (stock_nonneg (products s) \<and> process_sale fo inputs s = Inr (s', rest) \<longrightarrow>
      stock_nonneg (products s'))"
proof (intro conjI impI)
  assume "stock_nonneg (products s) \<and> 0 \<le> qty"
  then show "stock_nonneg (products (add_product fo pid nm pr qty s))"
    by (simp add: add_product_def Let_def save_inventory_def stock_nonneg_dict_set)
next
  assume "stock_nonneg ps \<and> sell_quantity fo pid product n (ps, sale, out) = Inr (ps', sale', out')"
  then show "stock_nonneg ps'"
    using sell_quantity_nonneg by blast
next
  assume a: "stock_nonneg (products s) \<and> process_sale fo inputs s = Inr (s', rest)"
  then obtain l ls where inputs: "inputs = l # ls"
    by (cases inputs) (auto simp: process_sale_def)
  from a obtain ps sale out where
    c: "collect_items fo (products s) \<lparr>sale_id = strip l, items = []\<rparr> (printed s) ls
          = Inr (ps, sale, out, rest)"
    and p: "products s' = ps"
    by (auto simp: process_sale_def inputs Let_def save_sale_def save_inventory_def
        split: sum.splits if_splits)
  from collect_items_nonneg [OF c] a p show "stock_nonneg (products s')"
    by simp
qed

theorem sale_item_nonneg_add_product_unchecked_witness:
  "stock_nonneg (products demo_shop) \<and> (0::int) \<le> 7
   \<and> stock_nonneg (products (add_product whole_ops ''p2'' ''ink'' 3 7 demo_shop))
   \<and> sell_quantity whole_ops ''p1'' pen 2 (products demo_shop, demo_sale ''S2'', [])
        = Inr (products resold_shop,
               (demo_sale ''S2'')\<lparr>items := items (demo_sale ''S2'') @ [(''p1'', ''pen'', 2, 4)]\<rparr>,
               [''Added 2 of pen to sale. Total: $4.00''])
   \<and> process_sale whole_ops [''S1'', ''p1'', ''2'', ''done''] demo_shop = Inr (resold_shop, [])
   \<and> stock_nonneg (products resold_shop)"
proof -
  have inv: "stock_nonneg (products demo_shop)"
    by code_simp
  have sell: "sell_quantity whole_ops ''p1'' pen 2 (products demo_shop, demo_sale ''S2'', [])
        = Inr (products resold_shop,
               (demo_sale ''S2'')\<lparr>items := items (demo_sale ''S2'') @ [(''p1'', ''pen'', 2, 4)]\<rparr>,
               [''Added 2 of pen to sale. Total: $4.00''])"
    by code_simp
  have run: "process_sale whole_ops [''S1'', ''p1'', ''2'', ''done''] demo_shop = Inr (resold_shop, [])"
    by code_simp
  have q: "(0::int) \<le> 7"
    by simp
  show ?thesis
    using inv sell run q
      sale_item_nonneg_add_product_unchecked
        [where s = demo_shop and qty = 7 and fo = whole_ops and pid = "''p2''" and nm = "''ink''"
           and pr = 3 and ps = "products demo_shop" and product = pen and n = 2
           and sale = "demo_sale ''S2''" and out = "[]" and ps' = "products resold_shop"
           and inputs = "[''S1'', ''p1'', ''2'', ''done'']" and s' = resold_shop and rest = "[]"]
    by blast
qed

subsection \<open>C3: saving a sale\<close>

text \<open>
  C3. \<open>save_sale\<close> leaves the ledger file as it is when the sale's identifier is among
  the existing ones; otherwise it appends one row per line item, in order, each of five
  fields and starting with the sale's identifier.
\<close>

theorem save_sale_rejects_or_appends:
  "(sale_id sale \<in> get_existing_sales (sales_file s) \<longrightarrow>
      sales_file (save_sale fo sale s) = sales_file s)
   \<and> (sale_id sale \<notin> get_existing_sales (sales_file s) \<longrightarrow>
      sales_file (save_sale fo sale s)
        = Some (rows_of (sales_file s) @ map (sale_row fo (sale_id sale)) (items sale))
      \<and> length (map (sale_row fo (sale_id sale)) (items sale)) = length (items sale)
      \<and> (\<forall>r \<in> set (map (sale_row fo (sale_id sale)) (items sale)). length r = 5 \<and> hd r = sale_id sale))"
  by (auto simp: save_sale_def sale_row_def split: prod.splits)

theorem save_sale_rejects_or_appends_witness:
  "sale_id (demo_sale ''S1'') \<in> get_existing_sales (sales_file demo_shop)
   \<and> sales_file (save_sale whole_ops (demo_sale ''S1'') demo_shop) = sales_file demo_shop
   \<and> sale_id (demo_sale ''S2'') \<notin> get_existing_sales (sales_file demo_shop)
   \<and> sales_file (save_sale whole_ops (demo_sale ''S2'') demo_shop)
       = Some (rows_of (sales_file demo_shop) @
               map (sale_row whole_ops (sale_id (demo_sale ''S2''))) (items (demo_sale ''S2'')))
   \<and> map (sale_row whole_ops (sale_id (demo_sale ''S2''))) (items (demo_sale ''S2''))
       = [[''S2'', ''p1'', ''pen'', ''2'', ''4.0''], [''S2'', ''p1'', ''pen'', ''1'', ''2.0'']]"
proof -
  have dup: "sale_id (demo_sale ''S1'') \<in> get_existing_sales (sales_file demo_shop)"
    by code_simp
  have fresh: "sale_id (demo_sale ''S2'') \<notin> get_existing_sales (sales_file demo_shop)"
    by code_simp
  have rows: "map (sale_row whole_ops (sale_id (demo_sale ''S2''))) (items (demo_sale ''S2''))
       = [[''S2'', ''p1'', ''pen'', ''2'', ''4.0''], [''S2'', ''p1'', ''pen'', ''1'', ''2.0'']]"
    by code_simp
  show ?thesis
    using dup fresh rows
      save_sale_rejects_or_appends [where sale = "demo_sale ''S1''" and s = demo_shop and fo = whole_ops]
      save_sale_rejects_or_appends [where sale = "demo_sale ''S2''" and s = demo_shop and fo = whole_ops]
    by blast
qed

subsection \<open>C4: adding a product under an identifier in use\<close>

text \<open>
  C4. \<open>add_product\<close> with an identifier already in the inventory changes neither the
  dictionary, so neither the record stored under the identifier, nor the inventory file,
  nor the ledger; it logs the error.
\<close>

theorem add_product_duplicate_rejected:
  assumes "map_of (products s) pid = Some p"
  shows "products (add_product fo pid nm pr qty s) = products s
       \<and> map_of (products (add_product fo pid nm pr qty s)) pid = Some p
       \<and> inventory_file (add_product fo pid nm pr qty s) = inventory_file s
       \<and> sales_file (add_product fo pid nm pr qty s) = sales_file s
       \<and> shop_log (add_product fo pid nm pr qty s) = shop_log s @ [(ERROR, ''Product ID already exists'')]"
  using assms by (simp add: add_product_def)

theorem add_product_duplicate_rejected_witness:
  "map_of (products demo_shop) ''p1'' = Some pen
   \<and> products (add_product whole_ops ''p1'' ''ink'' 3 7 demo_shop) = products demo_shop
   \<and> map_of (products (add_product whole_ops ''p1'' ''ink'' 3 7 demo_shop)) ''p1'' = Some pen
   \<and> inventory_file (add_product whole_ops ''p1'' ''ink'' 3 7 demo_shop) = inventory_file demo_shop
   \<and> sales_file (add_product whole_ops ''p1'' ''ink'' 3 7 demo_shop) = sales_file demo_shop
   \<and> shop_log (add_product whole_ops ''p1'' ''ink'' 3 7 demo_shop)
       = shop_log demo_shop @ [(ERROR, ''Product ID already exists'')]"
proof -
  have present: "map_of (products demo_shop) ''p1'' = Some pen"
    by code_simp
  show ?thesis
    using present
      add_product_duplicate_rejected
        [OF present, where fo = whole_ops and nm = "''ink''" and pr = 3 and qty = 7]
    by blast
qed

subsection \<open>C5: a sale item within stock\<close>

text \<open>
  The line total is \<open>price * quantity\<close>, a float times an integer, which raises
  \<open>OverflowError\<close> for an integer too large for a float; nothing catches it. A product
  with \<open>2 ^ 1024\<close> units on hand cannot be sold out in one item.
\<close>

theorem sale_item_overflow_counterexample:
  "map_of [(''p1'', bulk)] ''p1'' = Some bulk
   \<and> (2 ^ 1024 :: int) \<le> quantity bulk
   \<and> sell_quantity whole_ops ''p1'' bulk (2 ^ 1024) ([(''p1'', bulk)], \<lparr>sale_id = ''S1'', items = []\<rparr>, [])
       = Inl OverflowError"
  by code_simp

text \<open>
  C5, amended. For a product of the inventory and a quantity that is at most the
  quantity on hand and is below \<open>float_int_limit\<close> in absolute value, the item is
  accepted: the product's quantity on hand is decremented by exactly that quantity, every
  other product's record and the order of the dictionary are unchanged, and the sale gains
  one line item whose total is the product of the price and the quantity.
\<close>

theorem sale_item_within_stock:
  assumes "map_of ps pid = Some product"
    and "qty \<le> quantity product"
    and "\<bar>qty\<bar> < float_int_limit"
  shows "\<exists>ps' sale' out'.
           sell_quantity fo pid product qty (ps, sale, out) = Inr (ps', sale', out')
         \<and> map_of ps' pid = Some (product\<lparr>quantity := quantity product - qty\<rparr>)
         \<and> (\<forall>k. k \<noteq> pid \<longrightarrow> map_of ps' k = map_of ps k)
         \<and> map fst ps' = map fst ps
         \<and> items sale' = items sale @
              [(product_id product, name product, qty,
                float_mul fo (price product) (float_of_int fo qty))]
         \<and> sale_id sale' = sale_id sale"
  using assms
  by (simp add: sell_quantity_def add_item_def float_times_int_def map_of_dict_set
      dict_set_keys_present)

theorem sale_item_within_stock_witness:
  "map_of (products demo_shop) ''p1'' = Some pen
   \<and> (2::int) \<le> quantity pen
   \<and> \<bar>2::int\<bar> < float_int_limit
   \<and> (\<exists>ps' sale' out'.
         sell_quantity whole_ops ''p1'' pen 2 (products demo_shop, demo_sale ''S2'', []) = Inr (ps', sale', out')
       \<and> map_of ps' ''p1'' = Some (pen\<lparr>quantity := quantity pen - 2\<rparr>)
       \<and> (\<forall>k. k \<noteq> ''p1'' \<longrightarrow> map_of ps' k = map_of (products demo_shop) k)
       \<and> map fst ps' = map fst (products demo_shop)
       \<and> items sale' = items (demo_sale ''S2'') @
            [(product_id pen, name pen, 2, float_mul whole_ops (price pen) (float_of_int whole_ops 2))]
       \<and> sale_id sale' = sale_id (demo_sale ''S2''))"
proof -
  have present: "map_of (products demo_shop) ''p1'' = Some pen"
    by code_simp
  have enough: "(2::int) \<le> quantity pen"
    by code_simp
  have small: "\<bar>2::int\<bar> < float_int_limit"
    by code_simp
  show ?thesis
    using present enough small
      sale_item_within_stock
        [OF present enough small, where fo = whole_ops and sale = "demo_sale ''S2''" and out = "[]"]
    by blast
qed

subsection \<open>C6: the inventory file round trip\<close>




subsection \<open>C7: what a load yields\<close>




subsection \<open>C8: a sale item beyond stock\<close>

text \<open>
  C8. For a product of the inventory and a quantity greater than its quantity on hand,
  the item is rejected: the loop goes on with the same inventory and the same sale.
\<close>

theorem insufficient_stock_rejected:
  assumes "map_of ps (strip l) = Some product"
    and "lower (strip l) \<noteq> ''done''"
    and "py_int (strip ql) = Some qty"
    and "qty > quantity product"
  shows "sell_quantity fo (strip l) product qty (ps, sale, out)
           = Inr (ps, sale, out @ [''Not enough stock available.''])
       \<and> collect_items fo ps sale out (l # ql # ls)
           = collect_items fo ps sale (out @ [''Not enough stock available.'']) ls"
  using assms by (simp add: sell_quantity_def)

theorem insufficient_stock_rejected_witness:
  "map_of (products demo_shop) (strip ''p1 '') = Some pen
   \<and> lower (strip ''p1 '') \<noteq> ''done''
   \<and> py_int (strip ''6'') = Some 6
   \<and> 6 > quantity pen
   \<and> sell_quantity whole_ops (strip ''p1 '') pen 6 (products demo_shop, demo_sale ''S2'', [])
       = Inr (products demo_shop, demo_sale ''S2'', [] @ [''Not enough stock available.''])
   \<and> collect_items whole_ops (products demo_shop) (demo_sale ''S2'') [] (''p1 '' # ''6'' # [''done''])
       = collect_items whole_ops (products demo_shop) (demo_sale ''S2'')
           ([] @ [''Not enough stock available.'']) [''done'']"
proof -
  have present: "map_of (products demo_shop) (strip ''p1 '') = Some pen"
    by code_simp
  have going: "lower (strip ''p1 '') \<noteq> ''done''"
    by code_simp
  have parsed: "py_int (strip ''6'') = Some 6"
    by code_simp
  have more: "6 > quantity pen"
    by code_simp
  show ?thesis
    using present going parsed more
      insufficient_stock_rejected
        [OF present going parsed more, where fo = whole_ops and sale = "demo_sale ''S2''"
           and out = "[]" and ls = "[''done'']"]
    by blast
qed

subsection \<open>C9: the stock check has no lower bound\<close>

text \<open>
  A negative quantity of 309 digits passes the stock check and then fails in the line
  total with \<open>OverflowError\<close>: the item is not accepted, the loop does not go on.
\<close>

theorem negative_quantity_overflow_counterexample:
  "map_of [(''p1'', pen)] (strip ''p1'') = Some pen
   \<and> py_int (strip huge_return) = Some (- (2 ^ 1024))
   \<and> - (2 ^ 1024) \<le> quantity pen
   \<and> collect_items whole_ops [(''p1'', pen)] \<lparr>sale_id = ''S1'', items = []\<rparr> []
        [''p1'', huge_return, ''done'']
       = Inl OverflowError"
  by code_simp

text \<open>
  C9, amended. For a product of the inventory and an integer quantity that is at most
  the quantity on hand, zero and negative ones included, and is below
  \<open>float_int_limit\<close> in absolute value, the item is accepted and the loop goes on with
  one more line item and the quantity on hand decreased by the quantity, so increased
  when the quantity is negative.
\<close>

theorem stock_check_accepts_up_to_stock:
  assumes "map_of ps (strip l) = Some product"
    and "lower (strip l) \<noteq> ''done''"
    and "py_int (strip ql) = Some qty"
    and "qty \<le> quantity product"
    and "\<bar>qty\<bar> < float_int_limit"
  shows "\<exists>ps' sale' out' product'.
           sell_quantity fo (strip l) product qty (ps, sale, out) = Inr (ps', sale', out')
         \<and> collect_items fo ps sale out (l # ql # ls) = collect_items fo ps' sale' out' ls
         \<and> length (items sale') = Suc (length (items sale))
         \<and> map_of ps' (strip l) = Some product'
         \<and> quantity product' = quantity product - qty
         \<and> (qty < 0 \<longrightarrow> quantity product < quantity product')"
proof -
  obtain ps' sale' out' where
    sell: "sell_quantity fo (strip l) product qty (ps, sale, out) = Inr (ps', sale', out')"
    and ps': "ps' = dict_set (strip l) (product\<lparr>quantity := quantity product - qty\<rparr>) ps"
    and sale': "length (items sale') = Suc (length (items sale))"
    using assms(4,5) by (simp add: sell_quantity_def add_item_def float_times_int_def)
  have loop: "collect_items fo ps sale out (l # ql # ls) = collect_items fo ps' sale' out' ls"
    using assms(1-3) sell by simp
  have stored: "map_of ps' (strip l) = Some (product\<lparr>quantity := quantity product - qty\<rparr>)"
    by (simp add: ps' map_of_dict_set)
  from sell loop sale' stored show ?thesis
    by (intro exI [of _ ps'] exI [of _ sale'] exI [of _ out']
        exI [of _ "product\<lparr>quantity := quantity product - qty\<rparr>"]) simp
qed

theorem stock_check_accepts_up_to_stock_witness:
  "map_of (products demo_shop) (strip ''p1'') = Some pen
   \<and> lower (strip ''p1'') \<noteq> ''done''
   \<and> py_int (strip ''-4'') = Some (- 4)
   \<and> - 4 \<le> quantity pen
   \<and> \<bar>- 4 :: int\<bar> < float_int_limit
   \<and> (\<exists>ps' sale' out' product'.
         sell_quantity whole_ops (strip ''p1'') pen (- 4) (products demo_shop, demo_sale ''S2'', [])
           = Inr (ps', sale', out')
       \<and> collect_items whole_ops (products demo_shop) (demo_sale ''S2'') [] (''p1'' # ''-4'' # [''done''])
           = collect_items whole_ops ps' sale' out' [''done'']
       \<and> length (items sale') = Suc (length (items (demo_sale ''S2'')))
       \<and> map_of ps' (strip ''p1'') = Some product'
       \<and> quantity product' = quantity pen - (- 4)
       \<and> (- 4 < (0::int) \<longrightarrow> quantity pen < quantity product'))
   \<and> collect_items whole_ops (products demo_shop) (demo_sale ''S2'') [] [''p1'', ''-4'', ''done'']
       = Inr ([(''p1'', pen\<lparr>quantity := 9\<rparr>)],
              (demo_sale ''S2'')\<lparr>items := items (demo_sale ''S2'') @ [(''p1'', ''pen'', - 4, - 8)]\<rparr>,
              [''Added -4 of pen to sale. Total: $-8.00''], [])"
proof -
  have present: "map_of (products demo_shop) (strip ''p1'') = Some pen"
    by code_simp
  have going: "lower (strip ''p1'') \<noteq> ''done''"
    by code_simp
  have parsed: "py_int (strip ''-4'') = Some (- 4)"
    by code_simp
  have within: "- 4 \<le> quantity pen"
    by code_simp
  have small: "\<bar>- 4 :: int\<bar> < float_int_limit"
    by code_simp
  have run: "collect_items whole_ops (products demo_shop) (demo_sale ''S2'') [] [''p1'', ''-4'', ''done'']
       = Inr ([(''p1'', pen\<lparr>quantity := 9\<rparr>)],
              (demo_sale ''S2'')\<lparr>items := items (demo_sale ''S2'') @ [(''p1'', ''pen'', - 4, - 8)]\<rparr>,
              [''Added -4 of pen to sale. Total: $-8.00''], [])"
    by code_simp
  show ?thesis
    using present going parsed within small run
      stock_check_accepts_up_to_stock
        [OF present going parsed within small, where fo = whole_ops and sale = "demo_sale ''S2''"
           and out = "[]" and ls = "[''done'']"]
    by blast
qed

subsection \<open>C10: a sale without items\<close>

text \<open>
  C10. When the operator ends a sale with a new identifier before adding any item,
  \<open>process_sale\<close> finishes, the ledger has the same rows as before, the success is
  logged, the identifier is still not among the existing ones, and saving a later sale
  under the same identifier appends its rows.
\<close>

theorem empty_sale_leaves_id_unused:
  assumes "lower (strip dl) = ''done''"
    and "strip l \<notin> get_existing_sales (sales_file s)"
  shows "\<exists>s'. process_sale fo (l # dl # rest) s = Inr (s', rest)
         \<and> rows_of (sales_file s') = rows_of (sales_file s)
         \<and> shop_log s' = shop_log s @ [(INFO, ''Sale '' @ strip l @ '' recorded successfully.'')]
         \<and> strip l \<notin> get_existing_sales (sales_file s')
         \<and> (\<forall>sale2. sale_id sale2 = strip l \<longrightarrow>
               sales_file (save_sale fo sale2 s')
                 = Some (rows_of (sales_file s') @ map (sale_row fo (strip l)) (items sale2)))"
proof -
  let ?s1 = "save_inventory fo (s\<lparr>products := products s, printed := printed s\<rparr>)"
  let ?s2 = "save_sale fo \<lparr>sale_id = strip l, items = []\<rparr> ?s1"
  let ?s' = "?s2\<lparr>printed := printed ?s2 @ [''Sale '' @ strip l @ '' recorded successfully.'']\<rparr>"
  have run: "process_sale fo (l # dl # rest) s = Inr (?s', rest)"
    using assms(1) by (simp add: process_sale_def Let_def)
  have fresh: "strip l \<notin> get_existing_sales (sales_file ?s1)"
    using assms(2) by (simp add: save_inventory_def)
  have fl: "sales_file ?s' = Some (rows_of (sales_file s))"
    using fresh by (simp add: save_sale_def save_inventory_def)
  have lg: "shop_log ?s' = shop_log s @ [(INFO, ''Sale '' @ strip l @ '' recorded successfully.'')]"
    using fresh by (simp add: save_sale_def save_inventory_def)
  have same: "get_existing_sales (sales_file ?s') = get_existing_sales (sales_file s)"
    by (subst fl) (rule get_existing_sales_rows [symmetric])
  have still: "strip l \<notin> get_existing_sales (sales_file ?s')"
    unfolding same by (rule assms(2))
  have later: "\<forall>sale2. sale_id sale2 = strip l \<longrightarrow>
        sales_file (save_sale fo sale2 ?s')
          = Some (rows_of (sales_file ?s') @ map (sale_row fo (strip l)) (items sale2))"
    using still by (simp add: save_sale_def)
  from run fl lg still later show ?thesis
    by (intro exI [of _ ?s']) (simp add: rows_of_def)
qed

theorem empty_sale_leaves_id_unused_witness:
  "lower (strip ''DONE '') = ''done''
   \<and> strip ''S2'' \<notin> get_existing_sales (sales_file demo_shop)
   \<and> (\<exists>s'. process_sale whole_ops (''S2'' # ''DONE '' # []) demo_shop = Inr (s', [])
         \<and> rows_of (sales_file s') = rows_of (sales_file demo_shop)
         \<and> shop_log s' = shop_log demo_shop @ [(INFO, ''Sale '' @ strip ''S2'' @ '' recorded successfully.'')]
         \<and> strip ''S2'' \<notin> get_existing_sales (sales_file s')
         \<and> (\<forall>sale2. sale_id sale2 = strip ''S2'' \<longrightarrow>
               sales_file (save_sale whole_ops sale2 s')
                 = Some (rows_of (sales_file s') @ map (sale_row whole_ops (strip ''S2'')) (items sale2))))"
proof -
  have finished: "lower (strip ''DONE '') = ''done''"
    by code_simp
  have fresh: "strip ''S2'' \<notin> get_existing_sales (sales_file demo_shop)"
    by code_simp
  show ?thesis
    using finished fresh
      empty_sale_leaves_id_unused [OF finished fresh, where fo = whole_ops and rest = "[]"]
    by blast
qed

end
